theory Spec2Isabelle
  imports Complex_Main "HOL-Library.Log_Nat" "HOL-Library.Multiset"
begin

section \<open>Python numbers\<close>

text \<open>
  The scoring and gap-analysis engine computes with Python \<^verbatim>\<open>int\<close> (unbounded, modelled by
  \<^typ>\<open>int\<close>) and Python \<^verbatim>\<open>float\<close> (IEEE 754 binary64). A finite float is modelled by the
  rational number it denotes. Every float operation of the source computes the exact result and
  rounds it to the nearest number with a 53-bit significand, ties to the even significand;
  \<open>fl\<close> is that rounding. The exponent is not bounded in the model: infinities, NaN, overflow
  and subnormal numbers are outside it, and the sign of zero is not represented.
\<close>

type_synonym pyfloat = rat

datatype py_error = ZeroDivisionError | TypeError

definition pow2 :: "int \<Rightarrow> rat" where
  "pow2 e = 2 powi e"

text \<open>Rounding to the nearest integer, a tie going to the even neighbour.\<close>

definition round_half_even :: "rat \<Rightarrow> int" where
  "round_half_even x =
     (let f = \<lfloor>x\<rfloor>; r = x - of_int f
      in if r < 1 / 2 then f
         else if 1 / 2 < r then f + 1
         else if even f then f else f + 1)"

text \<open>The binary exponent \<open>e\<close> of a non-zero rational: \<open>2^e \<le> |q| < 2^(e+1)\<close>.\<close>

definition binade :: "rat \<Rightarrow> int" where
  "binade q =
     (let (a, b) = quotient_of \<bar>q\<bar>; k = bitlen a - bitlen b
      in if pow2 k \<le> \<bar>q\<bar> then k else k - 1)"

definition fl :: "rat \<Rightarrow> pyfloat" where
  "fl q = (if q = 0 then 0
           else let u = pow2 (binade q - 52) in of_int (round_half_even (q / u)) * u)"

text \<open>\<^verbatim>\<open>a / b\<close> on two ints: the correctly rounded quotient, ZeroDivisionError for \<open>b = 0\<close>.\<close>

definition int_truediv :: "int \<Rightarrow> int \<Rightarrow> py_error + pyfloat" where
  "int_truediv a b = (if b = 0 then Inl ZeroDivisionError else Inr (fl (of_int a / of_int b)))"

text \<open>\<^verbatim>\<open>x / y\<close> on two floats.\<close>

definition float_truediv :: "pyfloat \<Rightarrow> pyfloat \<Rightarrow> py_error + pyfloat" where
  "float_truediv x y = (if y = 0 then Inl ZeroDivisionError else Inr (fl (x / y)))"

text \<open>The conversion of an int operand that meets a float operand.\<close>

definition float_of_int :: "int \<Rightarrow> pyfloat" where
  "float_of_int n = fl (of_int n)"

definition float_add :: "pyfloat \<Rightarrow> pyfloat \<Rightarrow> pyfloat" where
  "float_add x y = fl (x + y)"

definition float_sub :: "pyfloat \<Rightarrow> pyfloat \<Rightarrow> pyfloat" where
  "float_sub x y = fl (x - y)"

definition float_mul :: "pyfloat \<Rightarrow> pyfloat \<Rightarrow> pyfloat" where
  "float_mul x y = fl (x * y)"

text \<open>
  \<^verbatim>\<open>round(x, ndigits)\<close> on a float with \<open>ndigits \<ge> 0\<close>: the exact value of \<open>x\<close> is rounded to
  \<open>ndigits\<close> decimal places, ties to even, and the decimal result is converted back to the
  nearest float.
\<close>

definition py_round :: "pyfloat \<Rightarrow> nat \<Rightarrow> pyfloat" where
  "py_round x ndigits = fl (of_int (round_half_even (x * 10 ^ ndigits)) / 10 ^ ndigits)"

text \<open>
  \<^verbatim>\<open>sum\<close> over a generator of floats adds from left to right, starting from the int \<open>0\<close>.
  An item is the value of the generator's expression or the exception raised by evaluating it,
  which ends the sum. (CPython from version 3.12 on also carries a compensation term for the
  rounding errors of the additions; it is zero whenever the additions are exact.)
\<close>

fun py_sum_float :: "(py_error + pyfloat) list \<Rightarrow> pyfloat \<Rightarrow> py_error + pyfloat" where
  "py_sum_float [] acc = Inr acc"
| "py_sum_float (item # items) acc =
     (case item of
        Inl e \<Rightarrow> Inl e
      | Inr x \<Rightarrow> py_sum_float items (float_add acc x))"

definition py_sum_int :: "int list \<Rightarrow> int" where
  "py_sum_int xs = foldl (+) 0 xs"

section \<open>Data model (models.py)\<close>

record CriterionScore =
  criterion_id :: string
  score :: "int option"
  is_na :: bool

record DimensionResult =
  dimension_id :: string
  dimension_name :: string
  criteria_scores :: "CriterionScore list"
  dim_score :: "pyfloat option"
  num_rated :: int
  num_na :: int

text \<open>
  The fields \<^verbatim>\<open>dimension_id\<close>, \<^verbatim>\<open>dimension_name\<close> and \<^verbatim>\<open>dim_score\<close> of \<^verbatim>\<open>GapItem\<close> carry the
  prefix \<open>gap_\<close> here, since two records cannot share a field name.
\<close>

record GapItem =
  gap_dimension_id :: string
  gap_dimension_name :: string
  gap_dim_score :: pyfloat
  gap_severity :: string
  priority_rank :: int
  recommendation :: string

section \<open>Scoring engine (scoring.py)\<close>

text \<open>
  \<^verbatim>\<open>sum(cs.score for cs in rated)\<close>: the scores are added from left to right; adding \<^verbatim>\<open>None\<close>
  to an int raises TypeError.
\<close>

fun sum_scores :: "CriterionScore list \<Rightarrow> int \<Rightarrow> py_error + int" where
  "sum_scores [] acc = Inr acc"
| "sum_scores (cs # rest) acc =
     (case score cs of
        None \<Rightarrow> Inl TypeError
      | Some s \<Rightarrow> sum_scores rest (acc + s))"

text \<open>
  \<^verbatim>\<open>calculate_dim_score\<close> assigns the three derived fields of the object it is given and
  returns that object. Here it takes the object's value and returns the updated value; the
  object identity is modelled further below by \<open>calculate_dim_score_at\<close>.
\<close>

definition calculate_dim_score :: "DimensionResult \<Rightarrow> py_error + DimensionResult" where
  "calculate_dim_score dimension =
     (let rated = [cs \<leftarrow> criteria_scores dimension. \<not> is_na cs \<and> score cs \<noteq> None];
          na_count = py_sum_int [1. cs \<leftarrow> criteria_scores dimension, is_na cs];
          dimension = dimension\<lparr>num_rated := int (length rated)\<rparr>;
          dimension = dimension\<lparr>num_na := na_count\<rparr>
      in if rated \<noteq> [] then
           (case sum_scores rated 0 of
              Inl e \<Rightarrow> Inl e
            | Inr score_sum \<Rightarrow>
                (case int_truediv score_sum (int (length rated)) of
                   Inl e \<Rightarrow> Inl e
                 | Inr mean \<Rightarrow> Inr (dimension\<lparr>dim_score := Some (py_round mean 2)\<rparr>)))
         else Inr (dimension\<lparr>dim_score := None\<rparr>))"

text \<open>
  Objects of class \<^verbatim>\<open>DimensionResult\<close> live in a store, addressed by reference. In Python a
  reference always leads to an object, so the store is total. The call mutates the object
  behind the reference and returns the same reference. An exception leaves no result.
\<close>

type_synonym ref = nat
type_synonym store = "ref \<Rightarrow> DimensionResult"

definition calculate_dim_score_at :: "ref \<Rightarrow> store \<Rightarrow> py_error + (ref \<times> store)" where
  "calculate_dim_score_at r h =
     (case calculate_dim_score (h r) of
        Inl e \<Rightarrow> Inl e
      | Inr d \<Rightarrow> Inr (r, h(r := d)))"

text \<open>Arithmetic on an \<^verbatim>\<open>Optional[float]\<close>: \<^verbatim>\<open>None\<close> as an operand raises TypeError.\<close>

definition float_operand :: "pyfloat option \<Rightarrow> py_error + pyfloat" where
  "float_operand v = (case v of None \<Rightarrow> Inl TypeError | Some x \<Rightarrow> Inr x)"

text \<open>\<^verbatim>\<open>d.get(key, default)\<close> on a dict.\<close>

definition py_get :: "('k \<rightharpoonup> 'v) \<Rightarrow> 'k \<Rightarrow> 'v \<Rightarrow> 'v" where
  "py_get m k dflt = (case m k of None \<Rightarrow> dflt | Some v \<Rightarrow> v)"

text \<open>The default weight \<^verbatim>\<open>1/6\<close>, a division of two ints.\<close>

definition default_weight :: pyfloat where
  "default_weight = fl (1 / 6)"

definition calculate_overall_score ::
  "DimensionResult list \<Rightarrow> (string \<rightharpoonup> pyfloat) option \<Rightarrow> py_error + pyfloat" where
  "calculate_overall_score dimensions weights =
     (let scored_dims = [d \<leftarrow> dimensions. dim_score d \<noteq> None]
      in if scored_dims = [] then Inr 0
         else
           (case weights of
              None \<Rightarrow>
                (let n = int (length scored_dims)
                 in case py_sum_float [float_operand (dim_score d). d \<leftarrow> scored_dims] 0 of
                      Inl e \<Rightarrow> Inl e
                    | Inr score_sum \<Rightarrow>
                        (case float_truediv score_sum (float_of_int n) of
                           Inl e \<Rightarrow> Inl e
                         | Inr q \<Rightarrow> Inr (py_round q 2)))
            | Some w \<Rightarrow>
                (case py_sum_float
                        [Inr (py_get w (dimension_id d) default_weight). d \<leftarrow> scored_dims] 0 of
                   Inl e \<Rightarrow> Inl e
                 | Inr total_weight \<Rightarrow>
                     if total_weight = 0 then Inr 0
                     else
                       (case py_sum_float
                               [case float_operand (dim_score d) of
                                  Inl e \<Rightarrow> Inl e
                                | Inr s \<Rightarrow>
                                    Inr (float_mul (py_get w (dimension_id d) default_weight) s).
                                d \<leftarrow> scored_dims] 0 of
                          Inl e \<Rightarrow> Inl e
                        | Inr weighted_sum \<Rightarrow>
                            (case float_truediv weighted_sum total_weight of
                               Inl e \<Rightarrow> Inl e
                             | Inr q \<Rightarrow> Inr (py_round q 2))))))"

definition MATURITY_LEVELS :: "(pyfloat \<times> string) list" where
  "MATURITY_LEVELS =
     [(9 / 2, ''Optimizing''),
      (7 / 2, ''Measured''),
      (5 / 2, ''Defined''),
      (3 / 2, ''Managed''),
      (0, ''Initial'')]"

text \<open>\<^verbatim>\<open>next(generator, default)\<close>: the first item the generator yields, else the default.\<close>

definition get_maturity_label :: "pyfloat \<Rightarrow> string" where
  "get_maturity_label s =
     (case [label. (threshold, label) \<leftarrow> MATURITY_LEVELS, threshold \<le> s] of
        [] \<Rightarrow> ''Initial''
      | label # _ \<Rightarrow> label)"

section \<open>Gap analysis (analysis.py)\<close>

text \<open>
  The advisory texts of the recommendation catalog, as the UTF-8 bytes of the source's string
  literals.
\<close>

definition rec_D1_critical :: string where
  "rec_D1_critical =
     ''Sofortma'' @
     [CHR 0xC3, CHR 0x9F] @
     ''nahme: Etablieren Sie mindestens ein rudiment'' @
     [CHR 0xC3, CHR 0xA4] @
     ''res KI-Risikoregister und bestimmen Sie eine*n Risikoverantwortliche*n. '' @
     ''Ohne jegliches Risikomanagement besteht akute Nicht-Konformit'' @
     [CHR 0xC3, CHR 0xA4] @
     ''t mit Art. 9 EU AI Act '' @
     [CHR 0xE2, CHR 0x80, CHR 0x94] @
     '' dies kann Bu'' @
     [CHR 0xC3, CHR 0x9F] @
     ''gelder bis 3% des weltweiten Umsatzes nach sich ziehen.''"

definition rec_D1_significant :: string where
  "rec_D1_significant =
     ''Formalisieren Sie das bestehende Risikomanagement: Definieren Sie '' @
     ''Risikoklassen, Bewertungskriterien und Review-Zyklen. Implementieren Sie '' @
     ''ein lebenszyklus-begleitendes Monitoring mit klaren Eskalationspfaden. '' @
     ''Quick Win: Risikoregister-Template aus ISO 31000 adaptieren.''"

definition rec_D1_moderate :: string where
  "rec_D1_moderate =
     ''Optimieren Sie die Verzahnung des KI-Risikomanagements mit dem Enterprise '' @
     ''Risk Management. Etablieren Sie quantitative Risikometriken und '' @
     ''automatisierte Schwellenwert-'' @
     [CHR 0xC3, CHR 0x9C] @
     ''berwachung. Benchmarking gegen Branchenstandards empfohlen.''"

definition rec_D2_critical :: string where
  "rec_D2_critical =
     ''Sofortma'' @
     [CHR 0xC3, CHR 0x9F] @
     ''nahme: Dokumentieren Sie alle Trainingsdatenquellen und f'' @
     [CHR 0xC3, CHR 0xBC] @
     ''hren Sie eine initiale Bias-Pr'' @
     [CHR 0xC3, CHR 0xBC] @
     ''fung durch. Ohne Data Governance ist die Konformit'' @
     [CHR 0xC3, CHR 0xA4] @
     ''t mit Art. 10 nicht nachweisbar. Quick Win: Daten-Inventar erstellen.''"

definition rec_D2_significant :: string where
  "rec_D2_significant =
     ''Implementieren Sie systematische Datenqualit'' @
     [CHR 0xC3, CHR 0xA4] @
     ''tsprozesse: Definieren Sie Metriken f'' @
     [CHR 0xC3, CHR 0xBC] @
     ''r Vollst'' @
     [CHR 0xC3, CHR 0xA4] @
     ''ndigkeit, Aktualit'' @
     [CHR 0xC3, CHR 0xA4] @
     ''t und Repr'' @
     [CHR 0xC3, CHR 0xA4] @
     ''sentativit'' @
     [CHR 0xC3, CHR 0xA4] @
     ''t. Etablieren Sie Bias-Detection-Pipelines und Datenherkunftsdokumentation '' @
     ''(Data Lineage).''"

definition rec_D2_moderate :: string where
  "rec_D2_moderate =
     ''Erweitern Sie die Data Governance um kontinuierliches Datenqualit'' @
     [CHR 0xC3, CHR 0xA4] @
     ''ts-Monitoring und automatisierte Drift-Erkennung. Etablieren Sie '' @
     ''Fairness-KPIs und regelm'' @
     [CHR 0xC3, CHR 0xA4, CHR 0xC3, CHR 0x9F] @
     ''ige Audits der Trainingsdaten.''"

definition rec_D3_critical :: string where
  "rec_D3_critical =
     ''Sofortma'' @
     [CHR 0xC3, CHR 0x9F] @
     ''nahme: Erstellen Sie die technische Dokumentation gem'' @
     [CHR 0xC3, CHR 0xA4, CHR 0xC3, CHR 0x9F] @
     '' Art. 11 / Anhang IV EU AI Act. Ohne Dokumentation ist keine Konformit'' @
     [CHR 0xC3, CHR 0xA4] @
     ''tserkl'' @
     [CHR 0xC3, CHR 0xA4] @
     ''rung m'' @
     [CHR 0xC3, CHR 0xB6] @
     ''glich. Quick Win: Dokumentationstemplate nach Anhang IV nutzen.''"

definition rec_D3_significant :: string where
  "rec_D3_significant =
     ''Vervollst'' @
     [CHR 0xC3, CHR 0xA4] @
     ''ndigen Sie die technische Dokumentation und etablieren Sie automatisierte '' @
     ''Logging-Systeme. Implementieren Sie eine Versionierungsstrategie f'' @
     [CHR 0xC3, CHR 0xBC] @
     ''r Modelle, Daten und Konfigurationen.''"

definition rec_D3_moderate :: string where
  "rec_D3_moderate =
     ''Automatisieren Sie die Dokumentationspflege durch CI/CD-Integration. '' @
     ''Etablieren Sie Machine-Readable-Logs und implementieren Sie Audit-Trails f'' @
     [CHR 0xC3, CHR 0xBC] @
     ''r alle Modellentscheidungen.''"

definition rec_D4_critical :: string where
  "rec_D4_critical =
     ''Sofortma'' @
     [CHR 0xC3, CHR 0x9F] @
     ''nahme: Implementieren Sie die Mindest-Informationspflichten nach Art. 13 '' @
     [CHR 0xE2, CHR 0x80, CHR 0x94] @
     '' Nutzer*innen m'' @
     [CHR 0xC3, CHR 0xBC] @
     ''ssen wissen, dass sie mit KI interagieren. Quick Win: KI-Kennzeichnung und '' @
     ''Basis-Nutzungsinformation bereitstellen.''"

definition rec_D4_significant :: string where
  "rec_D4_significant =
     ''St'' @
     [CHR 0xC3, CHR 0xA4] @
     ''rken Sie die Erkl'' @
     [CHR 0xC3, CHR 0xA4] @
     ''rbarkeit durch XAI-Methoden (SHAP, LIME) und etablieren Sie klare '' @
     ''Kommunikationswege f'' @
     [CHR 0xC3, CHR 0xBC] @
     ''r Transparenzanfragen. Dokumentieren Sie Systemgrenzen und '' @
     ''Unsicherheitsbereiche.''"

definition rec_D4_moderate :: string where
  "rec_D4_moderate =
     ''Implementieren Sie zielgruppenspezifische Erkl'' @
     [CHR 0xC3, CHR 0xA4] @
     ''rbarkeit (technisch f'' @
     [CHR 0xC3, CHR 0xBC] @
     ''r Auditoren, verst'' @
     [CHR 0xC3, CHR 0xA4] @
     ''ndlich f'' @
     [CHR 0xC3, CHR 0xBC] @
     ''r Endnutzer). Etablieren Sie proaktive Transparenzberichte und '' @
     ''Stakeholder-Kommunikation.''"

definition rec_D5_critical :: string where
  "rec_D5_critical =
     ''Sofortma'' @
     [CHR 0xC3, CHR 0x9F] @
     ''nahme: Definieren Sie mindestens eine*n geschulte*n Aufsichtsperson mit '' @
     ''Interventionsbefugnis (Art. 14). Ohne menschliche Aufsicht ist der Betrieb '' @
     ''von Hochrisiko-KI nicht zul'' @
     [CHR 0xC3, CHR 0xA4] @
     ''ssig. Quick Win: Notfall-Stopp-Mechanismus implementieren.''"

definition rec_D5_significant :: string where
  "rec_D5_significant =
     ''Etablieren Sie ein strukturiertes Human Oversight Framework: Definieren Sie '' @
     ''Aufsichtsrollen, Schulungsprogramme und Interventionsprotokolle. '' @
     ''Implementieren Sie Ma'' @
     [CHR 0xC3, CHR 0x9F] @
     ''nahmen gegen Automation Bias.''"

definition rec_D5_moderate :: string where
  "rec_D5_moderate =
     ''Optimieren Sie die Mensch-KI-Interaktion: Implementieren Sie adaptive '' @
     ''Aufsichtsintensit'' @
     [CHR 0xC3, CHR 0xA4] @
     ''t basierend auf Risikosituationen. Etablieren Sie regelm'' @
     [CHR 0xC3, CHR 0xA4, CHR 0xC3, CHR 0x9F] @
     ''ige Calibration-Sessions und Feedback-Loops.''"

definition rec_D6_critical :: string where
  "rec_D6_critical =
     ''Sofortma'' @
     [CHR 0xC3, CHR 0x9F] @
     ''nahme: Definieren Sie Mindest-Performance-Schwellen und implementieren Sie '' @
     ''einen Fallback-Mechanismus f'' @
     [CHR 0xC3, CHR 0xBC] @
     ''r Systemausf'' @
     [CHR 0xC3, CHR 0xA4] @
     ''lle (Art. 15). Quick Win: Monitoring-Dashboard f'' @
     [CHR 0xC3, CHR 0xBC] @
     ''r zentrale Leistungskennzahlen aufsetzen.''"

definition rec_D6_significant :: string where
  "rec_D6_significant =
     ''Erh'' @
     [CHR 0xC3, CHR 0xB6] @
     ''hen Sie die technische Robustheit: Implementieren Sie Cybersicherheitsma'' @
     [CHR 0xC3, CHR 0x9F] @
     ''nahmen, adversarial Testing und kontinuierliches Performance-Monitoring. '' @
     ''Definieren Sie Degradation-Strategien.''"

definition rec_D6_moderate :: string where
  "rec_D6_moderate =
     ''Etablieren Sie ein umfassendes Resilience-Framework: Chaos Engineering f'' @
     [CHR 0xC3, CHR 0xBC] @
     ''r KI-Systeme, automatisierte Regressionstests, und Monitoring von '' @
     ''Data/Concept Drift mit automatischer Benachrichtigung.''"

definition RECOMMENDATIONS :: "string \<rightharpoonup> (string \<rightharpoonup> string)" where
  "RECOMMENDATIONS = map_of
     [(''D1'', map_of [(''critical'', rec_D1_critical), (''significant'', rec_D1_significant),
                       (''moderate'', rec_D1_moderate)]),
      (''D2'', map_of [(''critical'', rec_D2_critical), (''significant'', rec_D2_significant),
                       (''moderate'', rec_D2_moderate)]),
      (''D3'', map_of [(''critical'', rec_D3_critical), (''significant'', rec_D3_significant),
                       (''moderate'', rec_D3_moderate)]),
      (''D4'', map_of [(''critical'', rec_D4_critical), (''significant'', rec_D4_significant),
                       (''moderate'', rec_D4_moderate)]),
      (''D5'', map_of [(''critical'', rec_D5_critical), (''significant'', rec_D5_significant),
                       (''moderate'', rec_D5_moderate)]),
      (''D6'', map_of [(''critical'', rec_D6_critical), (''significant'', rec_D6_significant),
                       (''moderate'', rec_D6_moderate)])]"

definition RISK_THRESHOLDS :: "string \<rightharpoonup> pyfloat" where
  "RISK_THRESHOLDS = map_of
     [(''high-risk'', 3),
      (''limited-risk'', 5 / 2),
      (''minimal-risk'', 2)]"

text \<open>
  The threshold after the override at the head of \<^verbatim>\<open>analyze_gaps\<close>. An omitted \<^verbatim>\<open>threshold\<close>
  argument (\<open>None\<close> here) takes the default \<^verbatim>\<open>3.0\<close>. The test \<^verbatim>\<open>if risk_category and ...\<close> is
  false for \<^verbatim>\<open>None\<close> and for the empty string; the subscript raises no KeyError since the key
  was found by \<^verbatim>\<open>in\<close>. The table is a parameter; \<^verbatim>\<open>analyze_gaps\<close> passes \<open>RISK_THRESHOLDS\<close>.
\<close>

definition resolve_threshold ::
  "(string \<rightharpoonup> pyfloat) \<Rightarrow> pyfloat option \<Rightarrow> string option \<Rightarrow> pyfloat" where
  "resolve_threshold table threshold_arg risk_category =
     (let threshold = (case threshold_arg of None \<Rightarrow> 3 | Some t \<Rightarrow> t)
      in case risk_category of
           None \<Rightarrow> threshold
         | Some rc \<Rightarrow>
             if rc \<noteq> [] \<and> table rc \<noteq> None
             then (case table rc of Some t \<Rightarrow> t | None \<Rightarrow> threshold)
             else threshold)"

text \<open>
  The body of the loop over the dimensions: one iteration takes the list of gaps built so far
  and returns it, with the new item appended when the dimension is below the threshold. The
  catalog is a parameter; \<^verbatim>\<open>analyze_gaps\<close> passes \<open>RECOMMENDATIONS\<close>.
\<close>

definition gap_step ::
  "(string \<rightharpoonup> (string \<rightharpoonup> string)) \<Rightarrow> pyfloat \<Rightarrow> GapItem list \<Rightarrow> DimensionResult \<Rightarrow> GapItem list"
  where
  "gap_step catalog threshold gaps d =
     (case dim_score d of
        None \<Rightarrow> gaps
      | Some s \<Rightarrow>
          if s < threshold then
            (let gap_value = float_sub threshold s;
                 severity = (if 2 \<le> gap_value then ''critical''
                             else if 1 \<le> gap_value then ''significant''
                             else ''moderate'');
                 dim_recs = py_get catalog (dimension_id d) Map.empty;
                 recommendation = py_get dim_recs severity (py_get dim_recs ''moderate'' [])
             in gaps @
                [\<lparr>gap_dimension_id = dimension_id d,
                  gap_dimension_name = dimension_name d,
                  gap_dim_score = s,
                  gap_severity = severity,
                  priority_rank = 0,
                  recommendation = recommendation\<rparr>])
          else gaps)"

text \<open>\<^verbatim>\<open>for i, gap in enumerate(gaps): gap.priority_rank = i + 1\<close>, from index \<open>i\<close> on.\<close>

fun assign_ranks :: "nat \<Rightarrow> GapItem list \<Rightarrow> GapItem list" where
  "assign_ranks i [] = []"
| "assign_ranks i (gap # rest) = gap\<lparr>priority_rank := int i + 1\<rparr> # assign_ranks (Suc i) rest"

text \<open>
  \<^verbatim>\<open>list.sort(key=...)\<close> is a stable sort by the key; \<open>sort_key\<close> is the stable sort of the
  library, and the result of a stable sort does not depend on the algorithm.
\<close>

definition analyze_gaps_in ::
  "(string \<rightharpoonup> (string \<rightharpoonup> string)) \<Rightarrow> (string \<rightharpoonup> pyfloat) \<Rightarrow>
   DimensionResult list \<Rightarrow> pyfloat option \<Rightarrow> string option \<Rightarrow> GapItem list" where
  "analyze_gaps_in catalog table dimensions threshold_arg risk_category =
     (let threshold = resolve_threshold table threshold_arg risk_category;
          gaps = foldl (gap_step catalog threshold) [] dimensions;
          gaps = sort_key gap_dim_score gaps
      in assign_ranks 0 gaps)"

text \<open>\<^verbatim>\<open>analyze_gaps\<close> of the module, with its two tables.\<close>

definition analyze_gaps ::
  "DimensionResult list \<Rightarrow> pyfloat option \<Rightarrow> string option \<Rightarrow> GapItem list" where
  "analyze_gaps = analyze_gaps_in RECOMMENDATIONS RISK_THRESHOLDS"

section \<open>Notions of the specification and scenario inputs\<close>

text \<open>
  The scores of the rated criteria of a dimension, in the specification's words: the criteria
  with \<^verbatim>\<open>is_na = false\<close> and a present score.
\<close>

definition rated_scores :: "DimensionResult \<Rightarrow> int list" where
  "rated_scores d = List.map_filter (\<lambda>cs. if is_na cs then None else score cs) (criteria_scores d)"

text \<open>
  Scenario 2 of the specification: ratings \<^verbatim>\<open>[1, None(is_na=true), 2, None, 3]\<close>. The fourth
  criterion has no score and keeps the default \<^verbatim>\<open>is_na = False\<close>.
\<close>

definition scenario_D2 :: DimensionResult where
  "scenario_D2 =
     \<lparr>dimension_id = ''D2'', dimension_name = ''Data Governance'',
      criteria_scores =
        [\<lparr>criterion_id = ''D2.1'', score = Some 1, is_na = False\<rparr>,
         \<lparr>criterion_id = ''D2.2'', score = None, is_na = True\<rparr>,
         \<lparr>criterion_id = ''D2.3'', score = Some 2, is_na = False\<rparr>,
         \<lparr>criterion_id = ''D2.4'', score = None, is_na = False\<rparr>,
         \<lparr>criterion_id = ''D2.5'', score = Some 3, is_na = False\<rparr>],
      dim_score = None, num_rated = 0, num_na = 0\<rparr>"


text \<open>
  A dimension is below the threshold when its \<open>dim_score\<close> is present and strictly less.
\<close>

definition below_threshold :: "pyfloat \<Rightarrow> DimensionResult \<Rightarrow> bool" where
  "below_threshold t d = (case dim_score d of None \<Rightarrow> False | Some s \<Rightarrow> s < t)"

text \<open>What a gap item copies from its dimension: identifier, name and score.\<close>

definition dim_key :: "DimensionResult \<Rightarrow> string \<times> string \<times> pyfloat option" where
  "dim_key d = (dimension_id d, dimension_name d, dim_score d)"

definition gap_key :: "GapItem \<Rightarrow> string \<times> string \<times> pyfloat option" where
  "gap_key g = (gap_dimension_id g, gap_dimension_name g, Some (gap_dim_score g))"

text \<open>The severity ladder of the specification, on a gap value.\<close>

definition severity_of :: "pyfloat \<Rightarrow> string" where
  "severity_of gap_value =
     (if 2 \<le> gap_value then ''critical''
      else if 1 \<le> gap_value then ''significant''
      else ''moderate'')"

text \<open>
  The catalog entry for a dimension and a severity, in the specification's words: the entry of
  the pair, else the dimension's \<open>moderate\<close> entry, else the empty string.
\<close>

definition catalog_entry :: "(string \<rightharpoonup> (string \<rightharpoonup> string)) \<Rightarrow> string \<Rightarrow> string \<Rightarrow> string" where
  "catalog_entry catalog dim_id severity =
     (case catalog dim_id of
        None \<Rightarrow> []
      | Some recs \<Rightarrow>
          (case recs severity of
             Some advice \<Rightarrow> advice
           | None \<Rightarrow> (case recs ''moderate'' of Some advice \<Rightarrow> advice | None \<Rightarrow> [])))"



text \<open>A scored dimension without criteria, for the scenarios of the gap analysis.\<close>

definition scored_dimension :: "string \<Rightarrow> string \<Rightarrow> pyfloat option \<Rightarrow> DimensionResult" where
  "scored_dimension i n s =
     \<lparr>dimension_id = i, dimension_name = n, criteria_scores = [],
      dim_score = s, num_rated = 0, num_na = 0\<rparr>"

section \<open>Facts about float rounding\<close>

lemma pow2_pos: "0 < pow2 e"
  by (simp add: pow2_def)

lemma binade_le:
  assumes "q \<noteq> 0"
  shows "pow2 (binade q) \<le> \<bar>q\<bar>"
proof -
  obtain a b where ab: "quotient_of \<bar>q\<bar> = (a, b)" by (cases "quotient_of \<bar>q\<bar>")
  have bpos: "0 < b" using ab by (rule quotient_of_denom_pos)
  have qab: "\<bar>q\<bar> = of_int a / of_int b" using ab by (rule quotient_of_div)
  have apos: "0 < a"
  proof (rule ccontr)
    assume "\<not> 0 < a"
    then have "of_int a / (of_int b :: rat) \<le> 0" using bpos by (simp add: divide_le_0_iff)
    with qab assms show False by simp
  qed
  define k where "k = bitlen a - bitlen b"
  have la: "1 \<le> bitlen a" using apos by (simp add: bitlen_alt_def)
  have lb: "1 \<le> bitlen b" using bpos by (simp add: bitlen_alt_def)
  have alow: "(2::int) ^ nat (bitlen a - 1) \<le> a" using bitlen_bounds [OF apos] by simp
  have bup: "b < (2::int) ^ nat (bitlen b)" using bitlen_bounds [OF bpos] by simp
  have "pow2 (k - 1) \<le> \<bar>q\<bar>"
  proof -
    have "pow2 (k - 1) = 2 powi (bitlen a - 1) / 2 powi (bitlen b)"
      by (simp add: pow2_def k_def power_int_diff)
    also have "\<dots> = 2 ^ nat (bitlen a - 1) / 2 ^ nat (bitlen b)"
      using la lb by (simp add: power_int_def)
    also have "\<dots> \<le> of_int a / of_int b"
    proof (rule frac_le)
      show "(0::rat) \<le> of_int a" using apos by simp
      show "(2::rat) ^ nat (bitlen a - 1) \<le> of_int a"
        using alow by (metis of_int_le_iff of_int_numeral of_int_power)
      show "(0::rat) < of_int b" using bpos by simp
      show "(of_int b :: rat) \<le> 2 ^ nat (bitlen b)"
        using bup by (metis less_imp_le of_int_le_iff of_int_numeral of_int_power)
    qed
    finally show ?thesis using qab by simp
  qed
  then show ?thesis
    using ab by (simp add: binade_def k_def Let_def)
qed

lemma round_half_even_ge:
  assumes "of_int n \<le> x"
  shows "n \<le> round_half_even x"
proof -
  have "n \<le> \<lfloor>x\<rfloor>" using assms by (simp add: le_floor_iff)
  then show ?thesis by (simp add: round_half_even_def Let_def)
qed


lemma fl_pos:
  assumes "0 < q"
  shows "0 < fl q"
proof -
  define u where "u = pow2 (binade q - 52)"
  have upos: "0 < u" by (simp add: u_def pow2_pos)
  have "pow2 (binade q) \<le> q" using binade_le [of q] assms by simp
  moreover have "pow2 (binade q) = 2 ^ 52 * u"
    by (simp add: u_def pow2_def power_int_diff)
  ultimately have "2 ^ 52 \<le> q / u" using upos by (simp add: pos_le_divide_eq)
  then have "of_int 1 \<le> q / u" by simp
  then have "1 \<le> round_half_even (q / u)" by (rule round_half_even_ge)
  then have "0 < (of_int (round_half_even (q / u)) :: rat) * u" using upos by simp
  then show ?thesis using assms by (simp add: fl_def u_def Let_def)
qed


section \<open>The dimension score\<close>

lemma sum_scores_rated:
  "sum_scores [cs \<leftarrow> xs. \<not> is_na cs \<and> score cs \<noteq> None] acc =
     Inr (acc + sum_list (List.map_filter (\<lambda>cs. if is_na cs then None else score cs) xs))"
  by (induction xs arbitrary: acc) (auto simp: List.map_filter_simps)

lemma length_rated:
  "length [cs \<leftarrow> xs. \<not> is_na cs \<and> score cs \<noteq> None] =
     length (List.map_filter (\<lambda>cs. if is_na cs then None else score cs) xs)"
  by (induction xs) (auto simp: List.map_filter_simps)

lemma foldl_add_ones:
  "foldl (+) acc (concat (map (\<lambda>cs. if is_na cs then [1] else []) xs)) =
     acc + int (length (filter is_na xs))"
  by (induction xs arbitrary: acc) auto

lemma na_count_eq:
  "py_sum_int (concat (map (\<lambda>cs. if is_na cs then [1] else []) xs)) = int (length (filter is_na xs))"
  by (simp add: py_sum_int_def foldl_add_ones)

lemma calculate_dim_score_eq:
  "calculate_dim_score d =
     Inr (d\<lparr>num_rated := int (length (rated_scores d)),
            num_na := int (length [cs \<leftarrow> criteria_scores d. is_na cs]),
            dim_score :=
              (if rated_scores d = [] then None
               else Some (py_round (fl (of_int (sum_list (rated_scores d)) /
                                        of_int (int (length (rated_scores d))))) 2))\<rparr>)"
proof -
  let ?rated = "[cs \<leftarrow> criteria_scores d. \<not> is_na cs \<and> score cs \<noteq> None]"
  have len: "length ?rated = length (rated_scores d)"
    unfolding rated_scores_def by (rule length_rated)
  have empty: "(?rated \<noteq> []) = (rated_scores d \<noteq> [])"
    using len by (metis length_0_conv)
  have total: "sum_scores ?rated 0 = Inr (sum_list (rated_scores d))"
    unfolding rated_scores_def using sum_scores_rated [of "criteria_scores d" 0] by simp
  have na: "py_sum_int [1. cs \<leftarrow> criteria_scores d, is_na cs] =
              int (length [cs \<leftarrow> criteria_scores d. is_na cs])"
    by (rule na_count_eq)
  show ?thesis
    unfolding calculate_dim_score_def Let_def len empty total na
    by (simp add: int_truediv_def)
qed




section \<open>The structure of the gap list\<close>

lemma gap_step_append:
  "gap_step c t gaps d = gaps @ gap_step c t [] d"
  by (simp add: gap_step_def Let_def split: option.splits)

lemma foldl_gap_step:
  "foldl (gap_step c t) acc ds = acc @ concat (map (gap_step c t []) ds)"
proof (induction ds arbitrary: acc)
  case Nil
  then show ?case by simp
next
  case (Cons d ds)
  have "foldl (gap_step c t) acc (d # ds) = foldl (gap_step c t) (gap_step c t acc d) ds"
    by simp
  also have "\<dots> = gap_step c t acc d @ concat (map (gap_step c t []) ds)"
    by (rule Cons.IH)
  also have "\<dots> = acc @ gap_step c t [] d @ concat (map (gap_step c t []) ds)"
    using gap_step_append [of c t acc d] by simp
  finally show ?case by simp
qed

lemma gap_step_rank0:
  "g \<in> set (gap_step c t [] d) \<Longrightarrow> priority_rank g = 0"
  by (auto simp: gap_step_def Let_def split: option.splits if_splits)

lemma length_assign_ranks: "length (assign_ranks i gs) = length gs"
  by (induction gs arbitrary: i) auto

lemma map_assign_ranks:
  assumes "\<And>g x. f (g\<lparr>priority_rank := x\<rparr>) = f g"
  shows "map f (assign_ranks i gs) = map f gs"
  using assms by (induction gs arbitrary: i) auto

lemma ranks_assign_ranks:
  "map priority_rank (assign_ranks i gs) = map int [Suc i ..< Suc i + length gs]"
proof (induction gs arbitrary: i)
  case Nil
  then show ?case by simp
next
  case (Cons g gs)
  have "[Suc i ..< Suc i + length (g # gs)] = Suc i # [Suc (Suc i) ..< Suc (Suc i) + length gs]"
    by (simp add: upt_rec)
  then show ?case using Cons.IH [of "Suc i"] by simp
qed

lemma erase_assign_ranks:
  assumes "\<forall>g \<in> set gs. priority_rank g = 0"
  shows "map (\<lambda>g. g\<lparr>priority_rank := 0\<rparr>) (assign_ranks i gs) = gs"
  using assms by (induction gs arbitrary: i) auto

lemma analyze_gaps_in_erase:
  "map (\<lambda>g. g\<lparr>priority_rank := 0\<rparr>) (analyze_gaps_in c tb dims targ rc) =
     sort_key gap_dim_score (concat (map (gap_step c (resolve_threshold tb targ rc) []) dims))"
proof -
  let ?t = "resolve_threshold tb targ rc"
  let ?gaps = "concat (map (gap_step c ?t []) dims)"
  have "\<forall>g \<in> set (sort_key gap_dim_score ?gaps). priority_rank g = 0"
    by (auto dest: gap_step_rank0)
  then show ?thesis
    by (simp add: analyze_gaps_in_def Let_def foldl_gap_step erase_assign_ranks)
qed

lemma analyze_gaps_in_map:
  assumes "\<And>g x. f (g\<lparr>priority_rank := x\<rparr>) = f g"
  shows "map f (analyze_gaps_in c tb dims targ rc) =
     map f (sort_key gap_dim_score (concat (map (gap_step c (resolve_threshold tb targ rc) []) dims)))"
  by (simp add: analyze_gaps_in_def Let_def foldl_gap_step map_assign_ranks [OF assms])

lemma analyze_gaps_in_elem:
  assumes "g \<in> set (analyze_gaps_in c tb dims targ rc)"
  shows "\<exists>d \<in> set dims. \<exists>g0 \<in> set (gap_step c (resolve_threshold tb targ rc) [] d).
           g\<lparr>priority_rank := 0\<rparr> = g0"
proof -
  have "g\<lparr>priority_rank := 0\<rparr> \<in> set (map (\<lambda>g. g\<lparr>priority_rank := 0\<rparr>) (analyze_gaps_in c tb dims targ rc))"
    using assms by (simp add: image_iff) blast
  then show ?thesis
    unfolding analyze_gaps_in_erase by auto
qed

lemma gap_step_single:
  "gap_step c t [] d =
     (if below_threshold t d then
        [\<lparr>gap_dimension_id = dimension_id d,
          gap_dimension_name = dimension_name d,
          gap_dim_score = (case dim_score d of Some s \<Rightarrow> s | None \<Rightarrow> 0),
          gap_severity = severity_of (float_sub t (case dim_score d of Some s \<Rightarrow> s | None \<Rightarrow> 0)),
          priority_rank = 0,
          recommendation = catalog_entry c (dimension_id d)
             (severity_of (float_sub t (case dim_score d of Some s \<Rightarrow> s | None \<Rightarrow> 0)))\<rparr>]
      else [])"
  by (auto simp: gap_step_def below_threshold_def severity_of_def catalog_entry_def py_get_def
        Let_def split: option.splits)

lemma gap_key_rank [simp]: "gap_key (g\<lparr>priority_rank := x\<rparr>) = gap_key g"
  by (simp add: gap_key_def)

lemma keys_unsorted:
  "map gap_key (concat (map (gap_step c t []) dims)) = map dim_key (filter (below_threshold t) dims)"
  by (induction dims)
     (auto simp: gap_step_single gap_key_def dim_key_def below_threshold_def split: option.splits)

lemma keys_unsorted_at:
  "map gap_key [g \<leftarrow> concat (map (gap_step c t []) dims). gap_dim_score g = k] =
     map dim_key [d \<leftarrow> dims. below_threshold t d \<and> dim_score d = Some k]"
  by (induction dims)
     (auto simp: gap_step_single gap_key_def dim_key_def below_threshold_def split: option.splits)

lemma analyze_gaps_in_keys:
  "mset (map gap_key (analyze_gaps_in c tb dims targ rc)) =
     mset (map dim_key (filter (below_threshold (resolve_threshold tb targ rc)) dims))"
proof -
  let ?t = "resolve_threshold tb targ rc"
  have "map gap_key (analyze_gaps_in c tb dims targ rc) =
          map gap_key (sort_key gap_dim_score (concat (map (gap_step c ?t []) dims)))"
    by (rule analyze_gaps_in_map) simp
  then have "mset (map gap_key (analyze_gaps_in c tb dims targ rc)) =
          mset (map gap_key (concat (map (gap_step c ?t []) dims)))"
    by simp
  then show ?thesis by (simp only: keys_unsorted)
qed

lemma analyze_gaps_in_item:
  assumes "g \<in> set (analyze_gaps_in c tb dims targ rc)"
  shows "\<exists>d \<in> set dims. below_threshold (resolve_threshold tb targ rc) d \<and>
           gap_key g = dim_key d \<and>
           gap_severity g = severity_of (float_sub (resolve_threshold tb targ rc) (gap_dim_score g)) \<and>
           recommendation g = catalog_entry c (gap_dimension_id g) (gap_severity g)"
proof -
  let ?t = "resolve_threshold tb targ rc"
  obtain d g0 where d: "d \<in> set dims" and g0: "g0 \<in> set (gap_step c ?t [] d)"
    and eq: "g\<lparr>priority_rank := 0\<rparr> = g0"
    using analyze_gaps_in_elem [OF assms] by blast
  have below: "below_threshold ?t d" using g0 by (auto simp: gap_step_single split: if_splits)
  then obtain s where s: "dim_score d = Some s" by (auto simp: below_threshold_def split: option.splits)
  have g0eq: "g0 = \<lparr>gap_dimension_id = dimension_id d,
          gap_dimension_name = dimension_name d,
          gap_dim_score = s,
          gap_severity = severity_of (float_sub ?t s),
          priority_rank = 0,
          recommendation = catalog_entry c (dimension_id d) (severity_of (float_sub ?t s))\<rparr>"
    using g0 below s by (simp add: gap_step_single)
  have f1: "gap_dimension_id g = gap_dimension_id g0" "gap_dimension_name g = gap_dimension_name g0"
    "gap_dim_score g = gap_dim_score g0" "gap_severity g = gap_severity g0"
    "recommendation g = recommendation g0"
    using eq by (metis GapItem.select_convs GapItem.surjective GapItem.update_convs)+
  show ?thesis
    using d below s f1 unfolding g0eq by (auto simp: gap_key_def dim_key_def)
qed


section \<open>Threshold resolution\<close>

lemma RISK_THRESHOLDS_lookup:
  "RISK_THRESHOLDS k =
     (if k = ''high-risk'' then Some 3
      else if k = ''limited-risk'' then Some (5 / 2)
      else if k = ''minimal-risk'' then Some 2
      else None)"
  by (simp add: RISK_THRESHOLDS_def)

lemma resolve_threshold_Some:
  "resolve_threshold tb targ (Some k) =
     (case (if k = [] then None else tb k) of
        Some t \<Rightarrow> t
      | None \<Rightarrow> (case targ of None \<Rightarrow> 3 | Some t \<Rightarrow> t))"
  by (simp add: resolve_threshold_def Let_def split: option.splits)

lemma resolve_threshold_table:
  "resolve_threshold RISK_THRESHOLDS targ rc =
     (if rc = Some ''high-risk'' then 3
      else if rc = Some ''limited-risk'' then 5 / 2
      else if rc = Some ''minimal-risk'' then 2
      else (case targ of None \<Rightarrow> 3 | Some t \<Rightarrow> t))"
proof (cases rc)
  case None
  then show ?thesis by (simp add: resolve_threshold_def)
next
  case (Some k)
  then show ?thesis
    by (simp add: resolve_threshold_Some RISK_THRESHOLDS_lookup)
qed

lemma resolve_threshold_idem:
  "resolve_threshold tb (Some (resolve_threshold tb targ rc)) None = resolve_threshold tb targ rc"
  by (simp add: resolve_threshold_def)

text \<open>
  Claim C5. The threshold that \<open>analyze_gaps\<close> uses is the table value for the three recognised
  risk categories (3.0, 2.5, 2.0) and the supplied threshold, 3.0 when none is supplied, for
  every other risk category: \<open>None\<close>, the empty string and unrecognised strings. The result of
  the call is the result for that threshold with no risk category, so nothing else of the risk
  category enters, and no error arises.
\<close>

theorem analyze_gaps_threshold:
  "resolve_threshold RISK_THRESHOLDS targ rc =
     (if rc = Some ''high-risk'' then 3
      else if rc = Some ''limited-risk'' then 5 / 2
      else if rc = Some ''minimal-risk'' then 2
      else (case targ of None \<Rightarrow> 3 | Some t \<Rightarrow> t)) \<and>
   analyze_gaps dims targ rc =
     analyze_gaps dims (Some (resolve_threshold RISK_THRESHOLDS targ rc)) None"
  by (simp add: resolve_threshold_table analyze_gaps_def analyze_gaps_in_def
        resolve_threshold_idem)


section \<open>The maturity label\<close>

text \<open>
  Claim C7. \<open>get_maturity_label\<close> is total and follows the descending ladder, the first match
  winning: Optimizing from 4.5, Measured from 3.5, Defined from 2.5, Managed from 1.5 and
  Initial for every other score, the negative ones included; the score 3.0 is Defined.
\<close>

theorem get_maturity_label_ladder:
  "get_maturity_label s =
     (if 9 / 2 \<le> s then ''Optimizing''
      else if 7 / 2 \<le> s then ''Measured''
      else if 5 / 2 \<le> s then ''Defined''
      else if 3 / 2 \<le> s then ''Managed''
      else ''Initial'') \<and>
   get_maturity_label 3 = ''Defined''"
  by (simp add: get_maturity_label_def MATURITY_LEVELS_def)


section \<open>Gap detection and severity\<close>

text \<open>
  Claim C2. With \<open>t\<close> the resolved threshold, the gap list holds exactly one item for each
  dimension whose \<open>dim_score\<close> is present and strictly less than \<open>t\<close>, carrying that dimension's
  identifier, name and score, and no other item (an equality of multisets, so dimensions given
  twice are counted twice). For each item the gap value \<open>t - dim_score\<close>, as the code computes it,
  is strictly positive (and so is the exact difference), and the severity is critical from
  2.0, significant from 1.0 and moderate below.
\<close>

theorem analyze_gaps_selection:
  "mset (map gap_key (analyze_gaps dims targ rc)) =
     mset (map dim_key (filter (below_threshold (resolve_threshold RISK_THRESHOLDS targ rc)) dims)) \<and>
   (\<forall>g \<in> set (analyze_gaps dims targ rc).
      gap_dim_score g < resolve_threshold RISK_THRESHOLDS targ rc \<and>
      0 < float_sub (resolve_threshold RISK_THRESHOLDS targ rc) (gap_dim_score g) \<and>
      gap_severity g =
        (if 2 \<le> float_sub (resolve_threshold RISK_THRESHOLDS targ rc) (gap_dim_score g)
         then ''critical''
         else if 1 \<le> float_sub (resolve_threshold RISK_THRESHOLDS targ rc) (gap_dim_score g)
         then ''significant''
         else ''moderate''))"
proof (intro conjI ballI)
  show "mset (map gap_key (analyze_gaps dims targ rc)) =
     mset (map dim_key (filter (below_threshold (resolve_threshold RISK_THRESHOLDS targ rc)) dims))"
    unfolding analyze_gaps_def by (rule analyze_gaps_in_keys)
next
  fix g
  assume "g \<in> set (analyze_gaps dims targ rc)"
  then obtain d where d: "below_threshold (resolve_threshold RISK_THRESHOLDS targ rc) d"
    and key: "gap_key g = dim_key d"
    and sev: "gap_severity g =
           severity_of (float_sub (resolve_threshold RISK_THRESHOLDS targ rc) (gap_dim_score g))"
    unfolding analyze_gaps_def using analyze_gaps_in_item by blast
  show less: "gap_dim_score g < resolve_threshold RISK_THRESHOLDS targ rc"
    using d key by (auto simp: below_threshold_def gap_key_def dim_key_def split: option.splits)
  from less show "0 < float_sub (resolve_threshold RISK_THRESHOLDS targ rc) (gap_dim_score g)"
    by (simp add: float_sub_def fl_pos)
  show "gap_severity g =
        (if 2 \<le> float_sub (resolve_threshold RISK_THRESHOLDS targ rc) (gap_dim_score g)
         then ''critical''
         else if 1 \<le> float_sub (resolve_threshold RISK_THRESHOLDS targ rc) (gap_dim_score g)
         then ''significant''
         else ''moderate'')"
    using sev by (simp add: severity_of_def)
qed

text \<open>
  The scenario of claim C2: a dimension scoring 1.0 under the high-risk threshold 3.0 has the
  gap value 2.0 and the severity critical.
\<close>

lemma float_sub_3_1: "float_sub 3 1 = 2"
  by code_simp

lemma scenario_D5_run:
  "map (\<lambda>g. (gap_dimension_id g, gap_dim_score g))
     (analyze_gaps [scored_dimension ''D5'' ''Human Oversight'' (Some 1)] None (Some ''high-risk'')) =
   [(''D5'', 1)]"
  by code_simp

theorem analyze_gaps_selection_witness:
  "map (\<lambda>g. (gap_dimension_id g, gap_dim_score g, gap_severity g))
     (analyze_gaps [scored_dimension ''D5'' ''Human Oversight'' (Some 1)] None (Some ''high-risk'')) =
   [(''D5'', 1, ''critical'')] \<and>
   resolve_threshold RISK_THRESHOLDS None (Some ''high-risk'') = 3 \<and>
   float_sub 3 1 = 2"
proof -
  let ?res = "analyze_gaps [scored_dimension ''D5'' ''Human Oversight'' (Some 1)] None (Some ''high-risk'')"
  have t: "resolve_threshold RISK_THRESHOLDS None (Some ''high-risk'') = 3"
    by (simp add: resolve_threshold_table)
  obtain g where res: "?res = [g]" and g: "gap_dimension_id g = ''D5''" "gap_dim_score g = 1"
    using scenario_D5_run by auto
  have "g \<in> set ?res" using res by simp
  then have "gap_severity g = ''critical''"
    using analyze_gaps_selection [of "[scored_dimension ''D5'' ''Human Oversight'' (Some 1)]" None "Some ''high-risk''"]
    by (simp add: t g float_sub_3_1 res)
  then show ?thesis using res g t float_sub_3_1 by simp
qed


section \<open>Ranking\<close>

lemma filter_erase_rank:
  "map gap_key [g \<leftarrow> gs. gap_dim_score g = k] =
   map gap_key [g \<leftarrow> map (\<lambda>g. g\<lparr>priority_rank := 0\<rparr>) gs. gap_dim_score g = k]"
  by (induction gs) auto

lemma analyze_gaps_in_stable:
  "map gap_key [g \<leftarrow> analyze_gaps_in c tb dims targ rc. gap_dim_score g = k] =
     map dim_key [d \<leftarrow> dims. below_threshold (resolve_threshold tb targ rc) d \<and> dim_score d = Some k]"
proof -
  let ?t = "resolve_threshold tb targ rc"
  have "map gap_key [g \<leftarrow> analyze_gaps_in c tb dims targ rc. gap_dim_score g = k] =
        map gap_key [g \<leftarrow> sort_key gap_dim_score (concat (map (gap_step c ?t []) dims)).
                       gap_dim_score g = k]"
    by (simp only: filter_erase_rank [where gs = "analyze_gaps_in c tb dims targ rc"] analyze_gaps_in_erase)
  also have "\<dots> = map gap_key [g \<leftarrow> concat (map (gap_step c ?t []) dims). gap_dim_score g = k]"
    by (simp only: sort_key_stable)
  finally show ?thesis by (simp only: keys_unsorted_at)
qed

lemma analyze_gaps_in_sorted:
  "sorted (map gap_dim_score (analyze_gaps_in c tb dims targ rc))"
proof -
  have "map gap_dim_score (analyze_gaps_in c tb dims targ rc) =
          map gap_dim_score (sort_key gap_dim_score
            (concat (map (gap_step c (resolve_threshold tb targ rc) []) dims)))"
    by (rule analyze_gaps_in_map) simp
  then show ?thesis by (simp only: sorted_sort_key)
qed

lemma analyze_gaps_in_ranks:
  "map priority_rank (analyze_gaps_in c tb dims targ rc) =
     map int [1 ..< Suc (length (analyze_gaps_in c tb dims targ rc))]"
  by (simp add: analyze_gaps_in_def Let_def ranks_assign_ranks length_assign_ranks)

text \<open>
  Claim C3. The gap list is sorted by \<open>dim_score\<close> ascending; \<open>priority_rank\<close> takes the values
  1, 2, ..., N along the list; and the sort is stable: for every score \<open>k\<close>, the items with
  that score stand in the order in which their dimensions were given. Two dimensions tying at
  2.0, given as D3 then D1, come out as D3 then D1 with the ranks 1 and 2.
\<close>

theorem analyze_gaps_ranking:
  "sorted (map gap_dim_score (analyze_gaps dims targ rc)) \<and>
   map priority_rank (analyze_gaps dims targ rc) =
     map int [1 ..< Suc (length (analyze_gaps dims targ rc))] \<and>
   map gap_key [g \<leftarrow> analyze_gaps dims targ rc. gap_dim_score g = k] =
     map dim_key [d \<leftarrow> dims. below_threshold (resolve_threshold RISK_THRESHOLDS targ rc) d \<and>
                              dim_score d = Some k] \<and>
   map (\<lambda>g. (gap_dimension_id g, gap_dim_score g, priority_rank g))
     (analyze_gaps [scored_dimension ''D3'' ''Documentation'' (Some 2),
                    scored_dimension ''D1'' ''Risk Management'' (Some 2)] None None) =
     [(''D3'', 2, 1), (''D1'', 2, 2)]"
proof -
  have "map (\<lambda>g. (gap_dimension_id g, gap_dim_score g, priority_rank g))
     (analyze_gaps [scored_dimension ''D3'' ''Documentation'' (Some 2),
                    scored_dimension ''D1'' ''Risk Management'' (Some 2)] None None) =
     [(''D3'', 2, 1), (''D1'', 2, 2)]"
    by code_simp
  then show ?thesis
    unfolding analyze_gaps_def
    using analyze_gaps_in_sorted analyze_gaps_in_ranks analyze_gaps_in_stable by blast
qed


section \<open>Recommendation lookup\<close>

text \<open>
  Claim C6. For every item of the gap list and every catalog, the recommendation is the catalog
  entry for the item's dimension and severity when there is one, else the dimension's moderate
  entry (the empty string when that is missing too), and the empty string when the dimension
  is not in the catalog. The lookups are total: the analysis has no error result.
\<close>

theorem analyze_gaps_recommendation:
  assumes "g \<in> set (analyze_gaps_in catalog table dims targ rc)"
  shows "recommendation g =
     (case catalog (gap_dimension_id g) of
        None \<Rightarrow> []
      | Some recs \<Rightarrow>
          (case recs (gap_severity g) of
             Some advice \<Rightarrow> advice
           | None \<Rightarrow> (case recs ''moderate'' of Some advice \<Rightarrow> advice | None \<Rightarrow> [])))"
  using analyze_gaps_in_item [OF assms] by (auto simp: catalog_entry_def)

text \<open>
  Two runs: with the catalog of the module, a known dimension and an unknown one; and with a
  catalog whose only entry for D5 is the moderate one, where the critical gap falls back to it.
\<close>

lemma scenario_recommendation_run:
  "map (\<lambda>g. (gap_dimension_id g, gap_severity g))
     (analyze_gaps [scored_dimension ''D5'' ''Human Oversight'' (Some 1),
                    scored_dimension ''DX'' ''Unknown'' (Some 2)] None (Some ''high-risk'')) =
   [(''D5'', ''critical''), (''DX'', ''significant'')]"
  by code_simp

lemma scenario_fallback_run:
  "map (\<lambda>g. (gap_dimension_id g, gap_severity g))
     (analyze_gaps_in (map_of [(''D5'', map_of [(''moderate'', ''advice'')])]) RISK_THRESHOLDS
        [scored_dimension ''D5'' ''Human Oversight'' (Some 1)] None (Some ''high-risk'')) =
   [(''D5'', ''critical'')]"
  by code_simp

theorem analyze_gaps_recommendation_witness:
  "map recommendation
     (analyze_gaps [scored_dimension ''D5'' ''Human Oversight'' (Some 1),
                    scored_dimension ''DX'' ''Unknown'' (Some 2)] None (Some ''high-risk'')) =
   [rec_D5_critical, []] \<and>
   map recommendation
     (analyze_gaps_in (map_of [(''D5'', map_of [(''moderate'', ''advice'')])]) RISK_THRESHOLDS
        [scored_dimension ''D5'' ''Human Oversight'' (Some 1)] None (Some ''high-risk'')) =
   [''advice'']"
proof -
  let ?dims = "[scored_dimension ''D5'' ''Human Oversight'' (Some 1),
                scored_dimension ''DX'' ''Unknown'' (Some 2)]"
  let ?res = "analyze_gaps_in RECOMMENDATIONS RISK_THRESHOLDS ?dims None (Some ''high-risk'')"
  obtain g1 g2 where res: "?res = [g1, g2]"
    and g1: "gap_dimension_id g1 = ''D5''" "gap_severity g1 = ''critical''"
    and g2: "gap_dimension_id g2 = ''DX''" "gap_severity g2 = ''significant''"
    using scenario_recommendation_run unfolding analyze_gaps_def by auto
  have "g1 \<in> set ?res" "g2 \<in> set ?res" using res by simp_all
  then have r1: "recommendation g1 = rec_D5_critical" and r2: "recommendation g2 = []"
    using analyze_gaps_recommendation [of g1 RECOMMENDATIONS RISK_THRESHOLDS ?dims None "Some ''high-risk''"]
      analyze_gaps_recommendation [of g2 RECOMMENDATIONS RISK_THRESHOLDS ?dims None "Some ''high-risk''"]
    by (simp_all add: g1 g2 RECOMMENDATIONS_def)
  let ?cat = "map_of [(''D5'', map_of [(''moderate'', ''advice'')])]"
  let ?res' = "analyze_gaps_in ?cat RISK_THRESHOLDS
        [scored_dimension ''D5'' ''Human Oversight'' (Some 1)] None (Some ''high-risk'')"
  obtain g3 where res': "?res' = [g3]"
    and g3: "gap_dimension_id g3 = ''D5''" "gap_severity g3 = ''critical''"
    using scenario_fallback_run by auto
  have "g3 \<in> set ?res'" using res' by simp
  then have r3: "recommendation g3 = ''advice''"
    using analyze_gaps_recommendation [of g3 ?cat RISK_THRESHOLDS
        "[scored_dimension ''D5'' ''Human Oversight'' (Some 1)]" None "Some ''high-risk''"]
    by (simp add: g3)
  show ?thesis
    unfolding analyze_gaps_def using res res' r1 r2 r3 by simp
qed


section \<open>Monotonicity in the risk category\<close>

lemma below_threshold_mono:
  "t \<le> t' \<Longrightarrow> below_threshold t d \<Longrightarrow> below_threshold t' d"
  by (auto simp: below_threshold_def split: option.splits)

lemma mset_filter_mono:
  assumes "\<And>x. P x \<Longrightarrow> Q x"
  shows "mset (map f (filter P xs)) \<subseteq># mset (map f (filter Q xs))"
proof -
  have "filter P xs = filter P (filter Q xs)"
    using assms by (auto intro: filter_cong simp: )
  then have "mset (filter P xs) \<subseteq># mset (filter Q xs)"
    by (metis mset_filter multiset_filter_subset)
  then show ?thesis
    by (metis image_mset_subseteq_mono mset_map)
qed

lemma analyze_gaps_in_key_set:
  "set (map gap_key (analyze_gaps_in c tb dims targ rc)) =
     dim_key ` {d \<in> set dims. below_threshold (resolve_threshold tb targ rc) d}"
proof -
  have "set (map gap_key (analyze_gaps_in c tb dims targ rc)) =
          set_mset (mset (map gap_key (analyze_gaps_in c tb dims targ rc)))"
    by simp
  also have "\<dots> = set (map dim_key (filter (below_threshold (resolve_threshold tb targ rc)) dims))"
    by (simp only: analyze_gaps_in_keys set_mset_mset)
  finally show ?thesis by simp
qed

text \<open>
  Claim C9. For the same dimensions, every gap found under minimal-risk (threshold 2.0) is
  also found under high-risk (threshold 3.0), counted with multiplicity and whatever the
  severities; and a gap found under high-risk is among the minimal-risk gaps exactly when its
  score is strictly below 2.0.
\<close>

theorem risk_category_monotone:
  "mset (map gap_key (analyze_gaps dims targ (Some ''minimal-risk''))) \<subseteq>#
     mset (map gap_key (analyze_gaps dims targ (Some ''high-risk''))) \<and>
   (\<forall>g \<in> set (analyze_gaps dims targ (Some ''high-risk'')).
      (gap_key g \<in> set (map gap_key (analyze_gaps dims targ (Some ''minimal-risk'')))) =
      (gap_dim_score g < 2))"
proof (intro conjI ballI)
  have lo: "resolve_threshold RISK_THRESHOLDS targ (Some ''minimal-risk'') = 2"
    and hi: "resolve_threshold RISK_THRESHOLDS targ (Some ''high-risk'') = 3"
    by (simp_all add: resolve_threshold_table)
  show "mset (map gap_key (analyze_gaps dims targ (Some ''minimal-risk''))) \<subseteq>#
     mset (map gap_key (analyze_gaps dims targ (Some ''high-risk'')))"
    unfolding analyze_gaps_def analyze_gaps_in_keys lo hi
    by (rule mset_filter_mono) (rule below_threshold_mono [of 2 3], simp)
  fix g
  assume g: "g \<in> set (analyze_gaps dims targ (Some ''high-risk''))"
  then have "gap_key g \<in> set (map gap_key (analyze_gaps_in RECOMMENDATIONS RISK_THRESHOLDS dims targ (Some ''high-risk'')))"
    unfolding analyze_gaps_def by simp
  then obtain d where d: "d \<in> set dims" "gap_key g = dim_key d"
    unfolding analyze_gaps_in_key_set by auto
  show "(gap_key g \<in> set (map gap_key (analyze_gaps dims targ (Some ''minimal-risk'')))) =
      (gap_dim_score g < 2)"
  proof
    assume "gap_key g \<in> set (map gap_key (analyze_gaps dims targ (Some ''minimal-risk'')))"
    then obtain d' where "below_threshold 2 d'" "gap_key g = dim_key d'"
      unfolding analyze_gaps_def analyze_gaps_in_key_set lo by auto
    then show "gap_dim_score g < 2"
      by (auto simp: below_threshold_def gap_key_def dim_key_def split: option.splits)
  next
    assume less: "gap_dim_score g < 2"
    have "dim_score d = Some (gap_dim_score g)"
      using d(2) by (simp add: gap_key_def dim_key_def)
    then have "below_threshold 2 d"
      using less by (simp add: below_threshold_def)
    then show "gap_key g \<in> set (map gap_key (analyze_gaps dims targ (Some ''minimal-risk'')))"
      unfolding analyze_gaps_def analyze_gaps_in_key_set lo using d by auto
  qed
qed

lemma scenario_monotone_run:
  "map gap_key
     (analyze_gaps [scored_dimension ''D1'' ''Risk Management'' (Some (5 / 2)),
                    scored_dimension ''D5'' ''Human Oversight'' (Some 1)] None (Some ''high-risk'')) =
     [(''D5'', ''Human Oversight'', Some 1), (''D1'', ''Risk Management'', Some (5 / 2))] \<and>
   map gap_key
     (analyze_gaps [scored_dimension ''D1'' ''Risk Management'' (Some (5 / 2)),
                    scored_dimension ''D5'' ''Human Oversight'' (Some 1)] None (Some ''minimal-risk'')) =
     [(''D5'', ''Human Oversight'', Some 1)]"
  by code_simp

theorem risk_category_monotone_witness:
  "map gap_key
     (analyze_gaps [scored_dimension ''D1'' ''Risk Management'' (Some (5 / 2)),
                    scored_dimension ''D5'' ''Human Oversight'' (Some 1)] None (Some ''high-risk'')) =
     [(''D5'', ''Human Oversight'', Some 1), (''D1'', ''Risk Management'', Some (5 / 2))] \<and>
   map gap_key
     (analyze_gaps [scored_dimension ''D1'' ''Risk Management'' (Some (5 / 2)),
                    scored_dimension ''D5'' ''Human Oversight'' (Some 1)] None (Some ''minimal-risk'')) =
     [(''D5'', ''Human Oversight'', Some 1)] \<and>
   mset (map gap_key
     (analyze_gaps [scored_dimension ''D1'' ''Risk Management'' (Some (5 / 2)),
                    scored_dimension ''D5'' ''Human Oversight'' (Some 1)] None (Some ''minimal-risk''))) \<subseteq>#
   mset (map gap_key
     (analyze_gaps [scored_dimension ''D1'' ''Risk Management'' (Some (5 / 2)),
                    scored_dimension ''D5'' ''Human Oversight'' (Some 1)] None (Some ''high-risk'')))"
  using risk_category_monotone [of "[scored_dimension ''D1'' ''Risk Management'' (Some (5 / 2)),
                    scored_dimension ''D5'' ''Human Oversight'' (Some 1)]" None]
    scenario_monotone_run
  by blast


section \<open>The overall score\<close>










text \<open>Scenario 3 of the specification: six dimensions scoring 3.0, no weights.\<close>

lemma scenario_overall_run:
  "calculate_overall_score
     [scored_dimension ''D1'' ''Risk Management'' (Some 3),
      scored_dimension ''D2'' ''Data Governance'' (Some 3),
      scored_dimension ''D3'' ''Documentation'' (Some 3),
      scored_dimension ''D4'' ''Transparency'' (Some 3),
      scored_dimension ''D5'' ''Human Oversight'' (Some 3),
      scored_dimension ''D6'' ''Robustness'' (Some 3)] None = Inr 3"
  by code_simp



section \<open>N/A criteria do not interfere\<close>

lemma map_filter_update:
  "i < length xs \<Longrightarrow> f y = f (xs ! i) \<Longrightarrow>
     List.map_filter f (xs[i := y]) = List.map_filter f xs"
proof (induction xs arbitrary: i)
  case Nil
  then show ?case by simp
next
  case (Cons x xs)
  show ?case
  proof (cases i)
    case 0
    then show ?thesis using Cons.prems by (simp add: List.map_filter_simps)
  next
    case (Suc j)
    then have "List.map_filter f (xs[j := y]) = List.map_filter f xs"
      using Cons.prems by (intro Cons.IH) simp_all
    then show ?thesis using Suc by (simp add: List.map_filter_simps split: option.splits)
  qed
qed

lemma rated_scores_na_update:
  assumes "i < length (criteria_scores d)" "is_na (criteria_scores d ! i)"
  shows "rated_scores (d\<lparr>criteria_scores := (criteria_scores d)[i := (criteria_scores d ! i)\<lparr>score := v\<rparr>]\<rparr>) =
         rated_scores d"
  using assms by (simp add: rated_scores_def map_filter_update)

text \<open>
  Claim C8. For a criterion with \<open>is_na = true\<close>, replacing its score by any other value, or by
  no score, leaves the \<open>dim_score\<close> computed by \<open>calculate_dim_score\<close> unchanged: both runs
  return, with the same \<open>dim_score\<close>.
\<close>

theorem na_score_noninterference:
  assumes "i < length (criteria_scores d)" and "is_na (criteria_scores d ! i)"
  shows "\<exists>r r'. calculate_dim_score d = Inr r \<and>
           calculate_dim_score
             (d\<lparr>criteria_scores :=
                  (criteria_scores d)[i := (criteria_scores d ! i)\<lparr>score := v\<rparr>]\<rparr>) = Inr r' \<and>
           dim_score r' = dim_score r"
  by (simp add: calculate_dim_score_eq rated_scores_na_update [OF assms])

text \<open>
  In scenario 2 the second criterion is N/A; giving it the score 5 leaves the result 2.0.
\<close>

lemma scenario_D2_na: "is_na (criteria_scores scenario_D2 ! 1)"
  by (simp add: scenario_D2_def)

lemma scenario_D2_run:
  "calculate_dim_score scenario_D2 =
     Inr (scenario_D2\<lparr>num_rated := 3, num_na := 1, dim_score := Some 2\<rparr>)"
  by code_simp

theorem na_score_noninterference_witness:
  "is_na (criteria_scores scenario_D2 ! 1) \<and>
   (\<exists>r r'. calculate_dim_score scenario_D2 = Inr r \<and>
      calculate_dim_score
        (scenario_D2\<lparr>criteria_scores :=
           (criteria_scores scenario_D2)[1 := (criteria_scores scenario_D2 ! 1)\<lparr>score := Some 5\<rparr>]\<rparr>) = Inr r' \<and>
      dim_score r' = dim_score r \<and> dim_score r = Some 2)"
proof -
  have len: "1 < length (criteria_scores scenario_D2)" by (simp add: scenario_D2_def)
  obtain r r' where r: "calculate_dim_score scenario_D2 = Inr r"
    and r': "calculate_dim_score
        (scenario_D2\<lparr>criteria_scores :=
           (criteria_scores scenario_D2)[1 := (criteria_scores scenario_D2 ! 1)\<lparr>score := Some 5\<rparr>]\<rparr>) = Inr r'"
    and eq: "dim_score r' = dim_score r"
    using na_score_noninterference [OF len scenario_D2_na, of "Some 5"] by blast
  have "dim_score r = Some 2" using r unfolding scenario_D2_run by auto
  then show ?thesis using r r' eq scenario_D2_na by blast
qed

section \<open>The frame of the dimension score\<close>

lemma calculate_dim_score_shape:
  "\<exists>a b c. calculate_dim_score d = Inr (d\<lparr>dim_score := a, num_rated := b, num_na := c\<rparr>)"
proof -
  obtain a b c where "calculate_dim_score d = Inr (d\<lparr>num_rated := b, num_na := c, dim_score := a\<rparr>)"
    using calculate_dim_score_eq [of d] by (rule that)
  moreover have "d\<lparr>num_rated := b, num_na := c, dim_score := a\<rparr> =
        d\<lparr>dim_score := a, num_rated := b, num_na := c\<rparr>"
    by simp
  ultimately have "calculate_dim_score d = Inr (d\<lparr>dim_score := a, num_rated := b, num_na := c\<rparr>)"
    by (simp only:)
  then show ?thesis by (intro exI)
qed

text \<open>
  Claim C10. A call of \<open>calculate_dim_score\<close> on the object behind a reference returns that
  same reference; in the store after the call the object differs from the one before in at
  most the three derived fields \<open>dim_score\<close>, \<open>num_rated\<close> and \<open>num_na\<close>; its identifier, its
  name and its list of criteria are unchanged, and so is every other object.
\<close>

theorem calculate_dim_score_frame:
  "\<exists>h'. calculate_dim_score_at r h = Inr (r, h') \<and>
      (\<exists>a b c. h' r = (h r)\<lparr>dim_score := a, num_rated := b, num_na := c\<rparr>) \<and>
      dimension_id (h' r) = dimension_id (h r) \<and>
      dimension_name (h' r) = dimension_name (h r) \<and>
      criteria_scores (h' r) = criteria_scores (h r) \<and>
      (\<forall>r'. r' \<noteq> r \<longrightarrow> h' r' = h r')"
proof -
  obtain a b c where eq: "calculate_dim_score (h r) = Inr ((h r)\<lparr>dim_score := a, num_rated := b, num_na := c\<rparr>)"
    using calculate_dim_score_shape [of "h r"] by (elim exE)
  let ?d = "(h r)\<lparr>dim_score := a, num_rated := b, num_na := c\<rparr>"
  let ?h' = "h(r := ?d)"
  have run: "calculate_dim_score_at r h = Inr (r, ?h')"
    by (simp add: calculate_dim_score_at_def eq)
  have upd: "?h' r = ?d" by simp
  have "\<exists>a b c. ?h' r = (h r)\<lparr>dim_score := a, num_rated := b, num_na := c\<rparr>"
    unfolding upd by (intro exI) (rule refl)
  moreover have "dimension_id (?h' r) = dimension_id (h r)"
    "dimension_name (?h' r) = dimension_name (h r)"
    "criteria_scores (?h' r) = criteria_scores (h r)"
    by simp_all
  moreover have "\<forall>r'. r' \<noteq> r \<longrightarrow> ?h' r' = h r'" by simp
  ultimately show ?thesis using run by (intro exI [of _ ?h'] conjI)
qed

text \<open>A store with scenario 2 at reference 0 and another dimension everywhere else.\<close>

theorem calculate_dim_score_frame_witness:
  "\<exists>h'. calculate_dim_score_at 0
           ((\<lambda>_. scored_dimension ''D1'' ''Risk Management'' None)(0 := scenario_D2)) =
         Inr (0, h') \<and>
      dimension_id (h' 0) = dimension_id scenario_D2 \<and>
      dimension_name (h' 0) = dimension_name scenario_D2 \<and>
      criteria_scores (h' 0) = criteria_scores scenario_D2 \<and>
      h' 1 = scored_dimension ''D1'' ''Risk Management'' None"
proof -
  let ?h = "(\<lambda>_. scored_dimension ''D1'' ''Risk Management'' None)((0::nat) := scenario_D2)"
  have h0: "?h 0 = scenario_D2" and h1: "?h 1 = scored_dimension ''D1'' ''Risk Management'' None"
    by simp_all
  obtain h' where run: "calculate_dim_score_at 0 ?h = Inr (0, h')"
    and f1: "dimension_id (h' 0) = dimension_id (?h 0)"
    and f2: "dimension_name (h' 0) = dimension_name (?h 0)"
    and f3: "criteria_scores (h' 0) = criteria_scores (?h 0)"
    and f4: "\<forall>r'. r' \<noteq> 0 \<longrightarrow> h' r' = ?h r'"
    using calculate_dim_score_frame [of 0 ?h] by (elim exE conjE)
  have "h' 1 = ?h 1" using f4 by simp
  then have g4: "h' 1 = scored_dimension ''D1'' ''Risk Management'' None"
    by (simp only: h1)
  show ?thesis
    using run f1 f2 f3 g4 unfolding h0 by (intro exI [of _ h'] conjI)
qed

end
